theory Spec2Isabelle
  imports Complex_Main
begin

section \<open>The game of \<open>src/app/game.tsx\<close>\<close>

text \<open>
  The component \<open>FlappyBirdGame\<close> keeps its state in React state cells
  (\<open>isGameStarted\<close>, \<open>isGameOver\<close>, \<open>score\<close>, \<open>pipes\<close>), in three shared values
  (\<open>birdY\<close>, \<open>birdVelocity\<close>, \<open>birdRotation\<close>) and in two refs holding interval handles.
  The model is a record of these cells; every callback of the component is a function
  from the record to the updated record. JavaScript numbers are idealised as reals;
  the window dimensions \<open>width\<close> and \<open>height\<close> are parameters.
\<close>

subsection \<open>Constants\<close>

definition GRAVITY :: real where "GRAVITY = 6 / 10"
definition JUMP_HEIGHT :: real where "JUMP_HEIGHT = - 12"
definition PIPE_WIDTH :: real where "PIPE_WIDTH = 80"
definition PIPE_GAP :: real where "PIPE_GAP = 200"
definition PIPE_SPEED :: real where "PIPE_SPEED = 2"

text \<open>The two constants local to the collision check of the game loop.\<close>

definition birdX :: real where "birdX = 100"
definition birdRadius :: real where "birdRadius = 20"

subsection \<open>Data\<close>

text \<open>
  The interface \<open>Pipe\<close>. Its field \<open>x\<close> is called \<open>pipe_x\<close> here, so that \<open>x\<close> stays
  free as a variable name.
\<close>

record Pipe =
  pipe_x :: real
  topHeight :: real
  bottomHeight :: real
  passed :: bool

text \<open>
  What is assigned to \<open>birdRotation.value\<close>: a plain number, \<open>withTiming\<close> of a target
  (with its duration in milliseconds when one is given), or \<open>withSequence\<close> of animations.
  The easing itself runs in real time and is not modelled.
\<close>

datatype Rotation =
  Value real
  | WithTiming real "nat option"
  | WithSequence "Rotation list"

text \<open>
  A ref holding an interval handle: \<open>Unset\<close> is the initial \<open>undefined\<close>, \<open>Running\<close> a
  handle returned by \<open>setInterval\<close> whose interval is active, \<open>Cleared\<close> a handle whose
  interval \<open>clearInterval\<close> has cancelled (the ref keeps the stale handle).
\<close>

datatype Timer = Unset | Running | Cleared

record Game =
  isGameStarted :: bool
  isGameOver :: bool
  score :: int
  pipes :: "Pipe list"
  birdY :: real
  birdVelocity :: real
  birdRotation :: Rotation
  gameLoopRef :: Timer
  pipeGenerationRef :: Timer

text \<open>
  The phase of the game, read off the two flags the way the component renders them:
  the overlay says "Game Over!" when \<open>isGameOver\<close>, "Flappy Bird" when the game has not
  started, and is absent while the game runs.
\<close>

datatype Phase = Idle | Playing | Ended

definition phase :: "Game \<Rightarrow> Phase" where
  "phase g = (if isGameOver g then Ended else if isGameStarted g then Playing else Idle)"

text \<open>The initial values of the state cells, for a window of the given height.\<close>

definition initial :: "real \<Rightarrow> Game" where
  "initial height =
     \<lparr>isGameStarted = False, isGameOver = False, score = 0, pipes = [],
      birdY = height / 2, birdVelocity = 0, birdRotation = Value 0,
      gameLoopRef = Unset, pipeGenerationRef = Unset\<rparr>"

subsection \<open>Callbacks\<close>

definition resetGame :: "real \<Rightarrow> Game \<Rightarrow> Game" where
  "resetGame height g =
     g\<lparr>birdY := height / 2, birdVelocity := 0, birdRotation := Value 0,
       score := 0, pipes := [], isGameOver := False, isGameStarted := False\<rparr>"

text \<open>\<open>if (ref.current) clearInterval(ref.current)\<close>: nothing happens on an unset ref.\<close>

definition clearInterval :: "Timer \<Rightarrow> Timer" where
  "clearInterval t = (case t of Unset \<Rightarrow> Unset | Running \<Rightarrow> Cleared | Cleared \<Rightarrow> Cleared)"

definition endGame :: "Game \<Rightarrow> Game" where
  "endGame g =
     g\<lparr>isGameOver := True, gameLoopRef := clearInterval (gameLoopRef g),
       pipeGenerationRef := clearInterval (pipeGenerationRef g)\<rparr>"

definition incrementScore :: "Game \<Rightarrow> Game" where
  "incrementScore g = g\<lparr>score := score g + 1\<rparr>"

text \<open>
  \<open>interpolate(v, [a, b], [c, d], 'clamp')\<close> of the animation library: linear between
  the two ranges, clamped at the edges.
\<close>

definition interpolate :: "real \<Rightarrow> real \<times> real \<Rightarrow> real \<times> real \<Rightarrow> real" where
  "interpolate v inp out =
     (case (inp, out) of ((a, b), (c, d)) \<Rightarrow>
        if v < a then c else if v > b then d else c + (v - a) * (d - c) / (b - a))"

text \<open>
  The body of the game loop, in the order of the source. First the bird physics, the
  rotation and the ground and ceiling check.
\<close>

definition updatePhysics :: "Game \<Rightarrow> Game" where
  "updatePhysics g =
     (let g1 = g\<lparr>birdVelocity := birdVelocity g + GRAVITY\<rparr>
      in g1\<lparr>birdY := birdY g1 + birdVelocity g1\<rparr>)"

definition updateRotation :: "Game \<Rightarrow> Game" where
  "updateRotation g =
     g\<lparr>birdRotation := WithTiming (interpolate (birdVelocity g) (- 10, 10) (- 20, 90)) None\<rparr>"

definition checkBounds :: "real \<Rightarrow> Game \<Rightarrow> Game" where
  "checkBounds height g =
     (if birdY g > height - 100 \<or> birdY g < 50 then endGame g else g)"

text \<open>The condition of the collision check, for one pipe of \<open>newPipes\<close>.\<close>

definition collides :: "real \<Rightarrow> real \<Rightarrow> Pipe \<Rightarrow> bool" where
  "collides height currentBirdY pipe \<longleftrightarrow>
     birdX + birdRadius > pipe_x pipe \<and>
     birdX - birdRadius < pipe_x pipe + PIPE_WIDTH \<and>
     (currentBirdY - birdRadius < topHeight pipe \<or>
      currentBirdY + birdRadius > height - bottomHeight pipe)"

text \<open>
  The \<open>for\<close> loop over \<open>newPipes\<close>. It returns the pipes with their \<open>passed\<close> flags
  updated, and the state after the calls of \<open>endGame\<close> and \<open>incrementScore\<close>. A collision
  ends the game and breaks out of the loop: the pipe and all pipes after it stay as
  they are.
\<close>

fun checkPipes :: "real \<Rightarrow> real \<Rightarrow> Pipe list \<Rightarrow> Game \<Rightarrow> Pipe list \<times> Game" where
  "checkPipes height currentBirdY [] g = ([], g)"
| "checkPipes height currentBirdY (pipe # rest) g =
     (if collides height currentBirdY pipe then (pipe # rest, endGame g)
      else if \<not> passed pipe \<and> pipe_x pipe + PIPE_WIDTH < birdX
      then (case checkPipes height currentBirdY rest (incrementScore g) of
              (rest', g') \<Rightarrow> (pipe\<lparr>passed := True\<rparr> # rest', g'))
      else (case checkPipes height currentBirdY rest g of
              (rest', g') \<Rightarrow> (pipe # rest', g')))"

text \<open>The updater passed to \<open>setPipes\<close>: move, check, prune.\<close>

definition movePipe :: "Pipe \<Rightarrow> Pipe" where
  "movePipe pipe = pipe\<lparr>pipe_x := pipe_x pipe - PIPE_SPEED\<rparr>"

definition updatePipes :: "real \<Rightarrow> Game \<Rightarrow> Game" where
  "updatePipes height g =
     (let newPipes = map movePipe (pipes g)
      in case checkPipes height (birdY g) newPipes g of
           (newPipes', g') \<Rightarrow>
             g'\<lparr>pipes := filter (\<lambda>pipe. pipe_x pipe > - PIPE_WIDTH) newPipes'\<rparr>)"

definition gameLoop :: "real \<Rightarrow> Game \<Rightarrow> Game" where
  "gameLoop height g = updatePipes height (checkBounds height (updateRotation (updatePhysics g)))"

text \<open>
  The body of the pipe generation interval. The result of \<open>Math.random()\<close> is the
  parameter \<open>r\<close>, a number with \<open>0 \<le> r < 1\<close>.
\<close>

definition generatePipe :: "real \<Rightarrow> real \<Rightarrow> real \<Rightarrow> Game \<Rightarrow> Game" where
  "generatePipe width height r g =
     (let top = r * (height - PIPE_GAP - 200) + 100;
          bottom = height - top - PIPE_GAP
      in g\<lparr>pipes := pipes g @
           [\<lparr>pipe_x = width, topHeight = top, bottomHeight = bottom, passed = False\<rparr>]\<rparr>)"

definition startGame :: "real \<Rightarrow> Game \<Rightarrow> Game" where
  "startGame height g =
     (if isGameOver g then resetGame height g
      else g\<lparr>isGameStarted := True, gameLoopRef := Running, pipeGenerationRef := Running\<rparr>)"

definition handleTap :: "real \<Rightarrow> Game \<Rightarrow> Game" where
  "handleTap height g =
     (if \<not> isGameStarted g \<and> \<not> isGameOver g then startGame height g
      else if isGameOver g then resetGame height g
      else g\<lparr>birdVelocity := JUMP_HEIGHT,
             birdRotation := WithSequence [WithTiming (- 20) (Some 100), WithTiming 0 (Some 200)]\<rparr>)"

subsection \<open>The two interval signals\<close>

text \<open>
  An interval calls its body only while it is active: the tick signal runs the game
  loop while the handle in \<open>gameLoopRef\<close> is running, the spawn signal generates a pipe
  while the handle in \<open>pipeGenerationRef\<close> is running.
\<close>

definition tick :: "real \<Rightarrow> Game \<Rightarrow> Game" where
  "tick height g = (if gameLoopRef g = Running then gameLoop height g else g)"

definition spawnTick :: "real \<Rightarrow> real \<Rightarrow> real \<Rightarrow> Game \<Rightarrow> Game" where
  "spawnTick width height r g =
     (if pipeGenerationRef g = Running then generatePipe width height r g else g)"

subsection \<open>Intervals and phase\<close>

text \<open>
  The two intervals are active exactly while the game is in the phase \<open>Playing\<close>. The
  property holds initially and every callback keeps it (\<open>wellFormed_preserved\<close> below).
\<close>

definition wellFormed :: "Game \<Rightarrow> bool" where
  "wellFormed g \<longleftrightarrow>
     (gameLoopRef g = Running) = (phase g = Playing) \<and>
     (pipeGenerationRef g = Running) = (phase g = Playing)"

subsection \<open>Example states\<close>

text \<open>A game just started in a window of 400 by 800: one tap on the initial state.\<close>

definition started800 :: Game where
  "started800 = handleTap 800 (initial 800)"

text \<open>
  A game that has ended in a window of 400 by 800: the bird has hit the top barrier of
  the first pipe, two pipes are live, two earlier ones have been passed and pruned.
\<close>

definition endedExample :: Game where
  "endedExample =
     \<lparr>isGameStarted = True, isGameOver = True, score = 2,
      pipes = [\<lparr>pipe_x = 118, topHeight = 300, bottomHeight = 300, passed = False\<rparr>,
               \<lparr>pipe_x = 368, topHeight = 250, bottomHeight = 350, passed = False\<rparr>],
      birdY = 310, birdVelocity = 48 / 10, birdRotation = WithTiming (614 / 10) None,
      gameLoopRef = Cleared, pipeGenerationRef = Cleared\<rparr>"

text \<open>
  A running game in which the next tick moves the first pipe under the bird while the
  bird is level with the pipe's top barrier.
\<close>

definition collisionExample :: Game where
  "collisionExample =
     \<lparr>isGameStarted = True, isGameOver = False, score = 0,
      pipes = [\<lparr>pipe_x = 20, topHeight = 480, bottomHeight = 120, passed = False\<rparr>,
               \<lparr>pipe_x = 270, topHeight = 250, bottomHeight = 350, passed = False\<rparr>],
      birdY = 480, birdVelocity = - (6 / 10), birdRotation = WithTiming (317 / 10) None,
      gameLoopRef = Running, pipeGenerationRef = Running\<rparr>"

text \<open>
  A running game whose first pipe, already passed, is about to leave the screen.
\<close>

definition pruneExample :: Game where
  "pruneExample =
     \<lparr>isGameStarted = True, isGameOver = False, score = 1,
      pipes = [\<lparr>pipe_x = - 78, topHeight = 300, bottomHeight = 300, passed = True\<rparr>,
               \<lparr>pipe_x = 172, topHeight = 250, bottomHeight = 350, passed = False\<rparr>],
      birdY = 400, birdVelocity = 0, birdRotation = WithTiming 35 None,
      gameLoopRef = Running, pipeGenerationRef = Running\<rparr>"

text \<open>
  A running game in which the next tick moves the first pipe past the bird while the
  bird is inside the gap.
\<close>

definition passExample :: Game where
  "passExample =
     \<lparr>isGameStarted = True, isGameOver = False, score = 0,
      pipes = [\<lparr>pipe_x = 20, topHeight = 300, bottomHeight = 300, passed = False\<rparr>,
               \<lparr>pipe_x = 270, topHeight = 250, bottomHeight = 350, passed = False\<rparr>],
      birdY = 400, birdVelocity = 0, birdRotation = WithTiming 35 None,
      gameLoopRef = Running, pipeGenerationRef = Running\<rparr>"


section \<open>Properties\<close>

subsection \<open>The loop over the pipes\<close>

lemma checkPipes_fst:
  "fst (checkPipes h y ps g) =
     map (\<lambda>p. if \<not> passed p \<and> pipe_x p + PIPE_WIDTH < birdX then p\<lparr>passed := True\<rparr> else p)
       (takeWhile (\<lambda>p. \<not> collides h y p) ps) @ dropWhile (\<lambda>p. \<not> collides h y p) ps"
  by (induction ps arbitrary: g) (simp_all add: case_prod_beta)

lemma checkPipes_snd:
  "snd (checkPipes h y ps g) =
     (let g1 = g\<lparr>score := score g + int (length (filter (\<lambda>p. \<not> passed p \<and> pipe_x p + PIPE_WIDTH < birdX)
                 (takeWhile (\<lambda>p. \<not> collides h y p) ps)))\<rparr>
      in if \<exists>p\<in>set ps. collides h y p then endGame g1 else g1)"
  by (induction ps arbitrary: g) (simp_all add: case_prod_beta incrementScore_def Let_def add.assoc)

lemma checkPipes_frame:
  "birdY (snd (checkPipes h y ps g)) = birdY g \<and>
   birdVelocity (snd (checkPipes h y ps g)) = birdVelocity g \<and>
   birdRotation (snd (checkPipes h y ps g)) = birdRotation g \<and>
   isGameStarted (snd (checkPipes h y ps g)) = isGameStarted g"
  by (simp add: checkPipes_snd Let_def endGame_def)

lemma checkPipes_over:
  "isGameOver (snd (checkPipes h y ps g)) \<longleftrightarrow> isGameOver g \<or> (\<exists>p\<in>set ps. collides h y p)"
  by (simp add: checkPipes_snd Let_def endGame_def)

lemma checkPipes_refs:
  "gameLoopRef (snd (checkPipes h y ps g)) =
     (if \<exists>p\<in>set ps. collides h y p then clearInterval (gameLoopRef g) else gameLoopRef g) \<and>
   pipeGenerationRef (snd (checkPipes h y ps g)) =
     (if \<exists>p\<in>set ps. collides h y p then clearInterval (pipeGenerationRef g) else pipeGenerationRef g)"
  by (simp add: checkPipes_snd Let_def endGame_def)

lemma updatePipes_frame:
  "birdY (updatePipes h g) = birdY g \<and> birdVelocity (updatePipes h g) = birdVelocity g \<and>
   birdRotation (updatePipes h g) = birdRotation g \<and> isGameStarted (updatePipes h g) = isGameStarted g"
  by (simp add: updatePipes_def Let_def case_prod_beta checkPipes_frame)

lemma updatePipes_over:
  "isGameOver (updatePipes h g) \<longleftrightarrow>
     isGameOver g \<or> (\<exists>p\<in>set (pipes g). collides h (birdY g) (movePipe p))"
  by (simp add: updatePipes_def Let_def case_prod_beta checkPipes_over)

lemma updatePipes_refs:
  "gameLoopRef (updatePipes h g) =
     (if \<exists>p\<in>set (pipes g). collides h (birdY g) (movePipe p)
      then clearInterval (gameLoopRef g) else gameLoopRef g) \<and>
   pipeGenerationRef (updatePipes h g) =
     (if \<exists>p\<in>set (pipes g). collides h (birdY g) (movePipe p)
      then clearInterval (pipeGenerationRef g) else pipeGenerationRef g)"
  by (simp add: updatePipes_def Let_def case_prod_beta checkPipes_refs)

lemma updatePipes_pipes:
  "pipes (updatePipes h g) =
     filter (\<lambda>p. pipe_x p > - PIPE_WIDTH) (fst (checkPipes h (birdY g) (map movePipe (pipes g)) g))"
  by (simp add: updatePipes_def Let_def case_prod_beta)

lemma updatePipes_score:
  "score (updatePipes h g) = score (snd (checkPipes h (birdY g) (map movePipe (pipes g)) g))"
  by (simp add: updatePipes_def Let_def case_prod_beta)

lemma beforePipes_fields:
  "birdVelocity (checkBounds h (updateRotation (updatePhysics g))) = birdVelocity g + GRAVITY \<and>
   birdY (checkBounds h (updateRotation (updatePhysics g))) = birdY g + (birdVelocity g + GRAVITY) \<and>
   pipes (checkBounds h (updateRotation (updatePhysics g))) = pipes g \<and>
   score (checkBounds h (updateRotation (updatePhysics g))) = score g \<and>
   isGameStarted (checkBounds h (updateRotation (updatePhysics g))) = isGameStarted g"
  by (simp add: checkBounds_def updateRotation_def updatePhysics_def Let_def endGame_def)

lemma beforePipes_over:
  "isGameOver (checkBounds h (updateRotation (updatePhysics g))) \<longleftrightarrow>
     isGameOver g \<or> birdY g + (birdVelocity g + GRAVITY) > h - 100 \<or> birdY g + (birdVelocity g + GRAVITY) < 50"
  by (auto simp add: checkBounds_def updateRotation_def updatePhysics_def Let_def endGame_def)

lemma beforePipes_refs:
  "gameLoopRef (checkBounds h (updateRotation (updatePhysics g))) =
     (if birdY g + (birdVelocity g + GRAVITY) > h - 100 \<or> birdY g + (birdVelocity g + GRAVITY) < 50
      then clearInterval (gameLoopRef g) else gameLoopRef g) \<and>
   pipeGenerationRef (checkBounds h (updateRotation (updatePhysics g))) =
     (if birdY g + (birdVelocity g + GRAVITY) > h - 100 \<or> birdY g + (birdVelocity g + GRAVITY) < 50
      then clearInterval (pipeGenerationRef g) else pipeGenerationRef g)"
  by (simp add: checkBounds_def updateRotation_def updatePhysics_def Let_def endGame_def)

lemma gameLoop_physics:
  "birdVelocity (gameLoop h g) = birdVelocity g + GRAVITY \<and>
   birdY (gameLoop h g) = birdY g + (birdVelocity g + GRAVITY)"
  by (simp add: gameLoop_def updatePipes_frame beforePipes_fields)

lemma gameLoop_over:
  "isGameOver (gameLoop h g) \<longleftrightarrow>
     isGameOver g \<or> birdY g + (birdVelocity g + GRAVITY) > h - 100 \<or> birdY g + (birdVelocity g + GRAVITY) < 50 \<or>
     (\<exists>p\<in>set (pipes g). collides h (birdY g + (birdVelocity g + GRAVITY)) (movePipe p))"
  by (simp add: gameLoop_def updatePipes_over beforePipes_over beforePipes_fields)

subsection \<open>Physics integration\<close>

text \<open>
  C7: in every tick during Playing, the velocity first grows by \<open>GRAVITY\<close>, whatever its
  value, and the position then grows by the new velocity; the position is not clamped.
  From velocity zero, one tick gives velocity 0.6 and moves the position by exactly 0.6.
\<close>

theorem physics_integration:
  assumes "phase g = Playing" and "gameLoopRef g = Running"
  shows "birdVelocity (tick h g) = birdVelocity g + GRAVITY \<and>
         birdY (tick h g) = birdY g + (birdVelocity g + GRAVITY) \<and>
         (birdVelocity g = 0 \<longrightarrow>
            birdVelocity (tick h g) = 6 / 10 \<and> birdY (tick h g) = birdY g + 6 / 10)"
  using assms by (simp add: tick_def gameLoop_physics GRAVITY_def)

theorem physics_integration_witness:
  "phase started800 = Playing \<and> gameLoopRef started800 = Running \<and>
   birdVelocity started800 = 0 \<and> birdY started800 = 400 \<and>
   birdVelocity (tick 800 started800) = 6 / 10 \<and> birdY (tick 800 started800) = 400 + 6 / 10"
proof -
  have a: "phase started800 = Playing" and b: "gameLoopRef started800 = Running"
    and c: "birdVelocity started800 = 0" and d: "birdY started800 = 400"
    by (simp_all add: started800_def handleTap_def startGame_def initial_def phase_def)
  from physics_integration [OF a b, of 800] a b c d show ?thesis by simp
qed

subsection \<open>The intervals run exactly while the game is played\<close>

lemma wellFormed_initial: "wellFormed (initial h)"
  by (simp add: wellFormed_def initial_def phase_def)

lemma clearInterval_not_Running: "clearInterval t \<noteq> Running"
  by (cases t) (simp_all add: clearInterval_def)

lemma wellFormed_handleTap: "wellFormed g \<Longrightarrow> wellFormed (handleTap h g)"
  by (auto simp add: wellFormed_def handleTap_def startGame_def resetGame_def phase_def
      split: if_splits)

lemma wellFormed_spawnTick: "wellFormed g \<Longrightarrow> wellFormed (spawnTick w h r g)"
  by (simp add: wellFormed_def spawnTick_def generatePipe_def phase_def Let_def)

lemma gameLoop_started: "isGameStarted (gameLoop h g) = isGameStarted g"
  by (simp add: gameLoop_def updatePipes_frame beforePipes_fields)

lemma clearInterval_idem: "clearInterval (clearInterval t) = clearInterval t"
  by (cases t) (simp_all add: clearInterval_def)

lemma gameLoop_refs:
  "gameLoopRef (gameLoop h g) =
     (if birdY g + (birdVelocity g + GRAVITY) > h - 100 \<or>
         birdY g + (birdVelocity g + GRAVITY) < 50 \<or>
         (\<exists>p\<in>set (pipes g). collides h (birdY g + (birdVelocity g + GRAVITY)) (movePipe p))
      then clearInterval (gameLoopRef g) else gameLoopRef g) \<and>
   pipeGenerationRef (gameLoop h g) =
     (if birdY g + (birdVelocity g + GRAVITY) > h - 100 \<or>
         birdY g + (birdVelocity g + GRAVITY) < 50 \<or>
         (\<exists>p\<in>set (pipes g). collides h (birdY g + (birdVelocity g + GRAVITY)) (movePipe p))
      then clearInterval (pipeGenerationRef g) else pipeGenerationRef g)"
  by (simp add: gameLoop_def updatePipes_refs beforePipes_refs beforePipes_fields
       clearInterval_idem)

lemma wellFormed_tick: "wellFormed g \<Longrightarrow> wellFormed (tick h g)"
proof (cases "gameLoopRef g = Running")
  case False
  then show "wellFormed g \<Longrightarrow> wellFormed (tick h g)" by (simp add: tick_def)
next
  case run: True
  assume wf: "wellFormed g"
  with run have p: "isGameStarted g" "\<not> isGameOver g" "pipeGenerationRef g = Running"
    by (auto simp add: wellFormed_def phase_def split: if_splits)
  have t: "tick h g = gameLoop h g" using run by (simp add: tick_def)
  show "wellFormed (tick h g)"
    unfolding t wellFormed_def phase_def gameLoop_started
    using p run gameLoop_refs [of h g] gameLoop_over [of h g]
    by (auto simp add: clearInterval_def)
qed

lemma wellFormed_preserved:
  assumes "wellFormed g"
  shows "wellFormed (handleTap h g)" and "wellFormed (tick h g)"
    and "wellFormed (spawnTick w h r g)"
  using assms by (rule wellFormed_handleTap, rule wellFormed_tick, rule wellFormed_spawnTick)

subsection \<open>The activate input\<close>

text \<open>
  C8: an activate input while Playing sets the velocity to \<open>JUMP_HEIGHT\<close>, which is -12,
  whatever the velocity was before (the result does not depend on it), and the phase
  stays Playing.
\<close>

theorem tap_while_playing_sets_velocity:
  assumes "phase g = Playing"
  shows "birdVelocity (handleTap h g) = JUMP_HEIGHT \<and> JUMP_HEIGHT = - 12 \<and>
         birdVelocity (handleTap h (g\<lparr>birdVelocity := v\<rparr>)) = birdVelocity (handleTap h g) \<and>
         phase (handleTap h g) = Playing"
  using assms by (simp add: handleTap_def phase_def JUMP_HEIGHT_def split: if_splits)

theorem tap_while_playing_sets_velocity_witness:
  "phase (started800\<lparr>birdVelocity := 5\<rparr>) = Playing \<and>
   birdVelocity (handleTap 800 (started800\<lparr>birdVelocity := 5\<rparr>)) = - 12 \<and>
   phase (handleTap 800 (started800\<lparr>birdVelocity := 5\<rparr>)) = Playing"
proof -
  have a: "phase (started800\<lparr>birdVelocity := 5\<rparr>) = Playing"
    by (simp add: started800_def handleTap_def startGame_def initial_def phase_def)
  from tap_while_playing_sets_velocity [OF a, of 800] a show ?thesis by simp
qed

text \<open>
  C10: an activate input while Playing (started and not over) changes the velocity and
  the rotation only: position, score, pipes, both flags and so the phase, and both
  interval refs are as before.
\<close>

theorem tap_while_playing_frame:
  assumes "isGameStarted g" and "\<not> isGameOver g"
  shows "birdY (handleTap h g) = birdY g \<and> score (handleTap h g) = score g \<and>
         pipes (handleTap h g) = pipes g \<and> phase (handleTap h g) = phase g \<and>
         isGameStarted (handleTap h g) = isGameStarted g \<and>
         isGameOver (handleTap h g) = isGameOver g \<and>
         gameLoopRef (handleTap h g) = gameLoopRef g \<and>
         pipeGenerationRef (handleTap h g) = pipeGenerationRef g \<and>
         handleTap h g =
           g\<lparr>birdVelocity := birdVelocity (handleTap h g),
             birdRotation := birdRotation (handleTap h g)\<rparr>"
  using assms by (simp add: handleTap_def phase_def)

theorem tap_while_playing_frame_witness:
  "isGameStarted started800 \<and> \<not> isGameOver started800 \<and>
   birdY (handleTap 800 started800) = 400 \<and> score (handleTap 800 started800) = 0 \<and>
   pipes (handleTap 800 started800) = [] \<and> phase (handleTap 800 started800) = Playing"
proof -
  have a: "isGameStarted started800" and b: "\<not> isGameOver started800"
    and c: "birdY started800 = 400" and d: "score started800 = 0" and e: "pipes started800 = []"
    and f: "phase started800 = Playing"
    by (simp_all add: started800_def handleTap_def startGame_def initial_def phase_def)
  from tap_while_playing_frame [OF a b, of 800] a b c d e f show ?thesis by simp
qed

text \<open>
  C9: an activate input while Ended gives the initial Idle state: score 0, no pipes,
  the bird at the centre with velocity and rotation zero, neither flag set; the state
  is the initial one up to the stale handles the refs keep. No interval is started, so
  the tick and spawn signals do nothing, and the next activate input enters Playing.
\<close>

theorem tap_while_ended_gives_idle:
  assumes "wellFormed g" and "phase g = Ended"
  shows "score (handleTap h g) = 0 \<and> pipes (handleTap h g) = [] \<and>
         birdY (handleTap h g) = h / 2 \<and> birdVelocity (handleTap h g) = 0 \<and>
         birdRotation (handleTap h g) = Value 0 \<and>
         \<not> isGameStarted (handleTap h g) \<and> \<not> isGameOver (handleTap h g) \<and>
         phase (handleTap h g) = Idle \<and>
         (handleTap h g)\<lparr>gameLoopRef := Unset, pipeGenerationRef := Unset\<rparr> = initial h \<and>
         gameLoopRef (handleTap h g) = gameLoopRef g \<and>
         pipeGenerationRef (handleTap h g) = pipeGenerationRef g \<and>
         gameLoopRef (handleTap h g) \<noteq> Running \<and> pipeGenerationRef (handleTap h g) \<noteq> Running \<and>
         tick h (handleTap h g) = handleTap h g \<and>
         spawnTick w h r (handleTap h g) = handleTap h g \<and>
         phase (handleTap h (handleTap h g)) = Playing"
  using assms
  by (simp add: wellFormed_def handleTap_def startGame_def resetGame_def phase_def initial_def
      tick_def spawnTick_def split: if_splits)

theorem tap_while_ended_gives_idle_witness:
  "wellFormed endedExample \<and> phase endedExample = Ended \<and>
   phase (handleTap 800 endedExample) = Idle \<and> score (handleTap 800 endedExample) = 0 \<and>
   pipes (handleTap 800 endedExample) = [] \<and> birdY (handleTap 800 endedExample) = 400 \<and>
   gameLoopRef (handleTap 800 endedExample) = Cleared \<and>
   phase (handleTap 800 (handleTap 800 endedExample)) = Playing"
proof -
  have a: "wellFormed endedExample" and b: "phase endedExample = Ended"
    and c: "gameLoopRef endedExample = Cleared"
    by (simp_all add: endedExample_def wellFormed_def phase_def)
  from tap_while_ended_gives_idle [OF a b, of 800] a b c show ?thesis by simp
qed

text \<open>
  C2 as stated fails: in the ended example, the activate input leaves the game Idle, not
  Playing, and both intervals stay cancelled.
\<close>

theorem tap_while_ended_not_playing:
  "phase endedExample = Ended \<and> phase (handleTap 800 endedExample) = Idle \<and>
   gameLoopRef (handleTap 800 endedExample) = Cleared \<and>
   pipeGenerationRef (handleTap 800 endedExample) = Cleared"
  by (simp add: endedExample_def handleTap_def resetGame_def phase_def)

text \<open>
  C2, amended: an activate input while Ended clears the pipes, puts the bird back at
  its initial position with velocity and rotation zero and the score back to 0, and
  makes the phase Idle with both intervals still cancelled. The activate input after
  that one enters Playing and starts both intervals, with the reset values in place.
\<close>

theorem tap_while_ended_resets:
  assumes "wellFormed g" and "phase g = Ended"
  shows "pipes (handleTap h g) = [] \<and> birdY (handleTap h g) = h / 2 \<and>
         birdVelocity (handleTap h g) = 0 \<and> birdRotation (handleTap h g) = Value 0 \<and>
         score (handleTap h g) = 0 \<and> phase (handleTap h g) = Idle \<and>
         gameLoopRef (handleTap h g) \<noteq> Running \<and> pipeGenerationRef (handleTap h g) \<noteq> Running \<and>
         phase (handleTap h (handleTap h g)) = Playing \<and>
         gameLoopRef (handleTap h (handleTap h g)) = Running \<and>
         pipeGenerationRef (handleTap h (handleTap h g)) = Running \<and>
         pipes (handleTap h (handleTap h g)) = [] \<and>
         score (handleTap h (handleTap h g)) = 0 \<and>
         birdY (handleTap h (handleTap h g)) = h / 2 \<and>
         birdVelocity (handleTap h (handleTap h g)) = 0 \<and>
         birdRotation (handleTap h (handleTap h g)) = Value 0"
  using assms
  by (simp add: wellFormed_def handleTap_def startGame_def resetGame_def phase_def
      split: if_splits)

theorem tap_while_ended_resets_witness:
  "wellFormed endedExample \<and> phase endedExample = Ended \<and>
   pipes (handleTap 800 endedExample) = [] \<and> score (handleTap 800 endedExample) = 0 \<and>
   phase (handleTap 800 endedExample) = Idle \<and>
   phase (handleTap 800 (handleTap 800 endedExample)) = Playing \<and>
   gameLoopRef (handleTap 800 (handleTap 800 endedExample)) = Running"
proof -
  have a: "wellFormed endedExample" and b: "phase endedExample = Ended"
    by (simp_all add: endedExample_def wellFormed_def phase_def)
  from tap_while_ended_resets [OF a b, of 800] a b show ?thesis by simp
qed

subsection \<open>Termination conditions\<close>

lemma checkPipes_triples:
  "map (\<lambda>p. (pipe_x p, topHeight p, bottomHeight p)) (fst (checkPipes h y ps g)) =
   map (\<lambda>p. (pipe_x p, topHeight p, bottomHeight p)) ps"
  by (induction ps arbitrary: g) (simp_all add: case_prod_beta)

lemma gameLoop_phase:
  "phase g = Playing \<Longrightarrow>
   (phase (gameLoop h g) = Ended) =
     (birdY g + (birdVelocity g + GRAVITY) > h - 100 \<or> birdY g + (birdVelocity g + GRAVITY) < 50 \<or>
      (\<exists>p\<in>set (pipes g). collides h (birdY g + (birdVelocity g + GRAVITY)) (movePipe p)))"
  by (simp add: phase_def gameLoop_over split: if_splits)

text \<open>
  C3: in a tick during Playing, with \<open>y\<close> the bird's position after integration, the
  game ends exactly when \<open>y\<close> is beyond \<open>height - 100\<close> or below 50, or some pipe, at
  its advanced position, overlaps the bird horizontally
  (\<open>birdX + birdRadius > x\<close> and \<open>birdX - birdRadius < x + PIPE_WIDTH\<close>) while the bird
  leaves the gap (\<open>y - birdRadius < topHeight\<close> or
  \<open>y + birdRadius > height - bottomHeight\<close>). The ground and ceiling check ends the game
  exactly on its own condition, whatever the pipes; the loop over the pipes ends a game
  not yet over exactly when one of the pipes it is given satisfies the collision
  condition.
\<close>

theorem termination_conditions:
  assumes "phase g = Playing" and "gameLoopRef g = Running"
    and "y = birdY g + (birdVelocity g + GRAVITY)"
  shows
   "(phase (tick h g) = Ended) =
      ((y > h - 100 \<or> y < 50) \<or>
       (\<exists>p\<in>set (pipes g).
          birdX + birdRadius > pipe_x p - PIPE_SPEED \<and>
          birdX - birdRadius < pipe_x p - PIPE_SPEED + PIPE_WIDTH \<and>
          (y - birdRadius < topHeight p \<or> y + birdRadius > h - bottomHeight p))) \<and>
    birdY (tick h g) = y \<and>
    (phase (checkBounds h (updateRotation (updatePhysics g))) = Ended) = (y > h - 100 \<or> y < 50) \<and>
    (\<forall>ps s. phase s \<noteq> Ended \<longrightarrow>
       (phase (snd (checkPipes h y ps s)) = Ended) =
       (\<exists>p\<in>set ps.
          birdX + birdRadius > pipe_x p \<and> birdX - birdRadius < pipe_x p + PIPE_WIDTH \<and>
          (y - birdRadius < topHeight p \<or> y + birdRadius > h - bottomHeight p))) \<and>
    birdX = 100 \<and> birdRadius = 20 \<and> PIPE_WIDTH = 80"
proof -
  have t: "tick h g = gameLoop h g" using assms(2) by (simp add: tick_def)
  have c: "collides h y (movePipe p) =
      (birdX + birdRadius > pipe_x p - PIPE_SPEED \<and>
       birdX - birdRadius < pipe_x p - PIPE_SPEED + PIPE_WIDTH \<and>
       (y - birdRadius < topHeight p \<or> y + birdRadius > h - bottomHeight p))" for p
    by (simp add: collides_def movePipe_def)
  have 1: "(phase (tick h g) = Ended) =
      ((y > h - 100 \<or> y < 50) \<or>
       (\<exists>p\<in>set (pipes g).
          birdX + birdRadius > pipe_x p - PIPE_SPEED \<and>
          birdX - birdRadius < pipe_x p - PIPE_SPEED + PIPE_WIDTH \<and>
          (y - birdRadius < topHeight p \<or> y + birdRadius > h - bottomHeight p)))"
    unfolding t gameLoop_phase [OF assms(1)] assms(3) [symmetric] c by simp
  have 2: "birdY (tick h g) = y"
    unfolding t assms(3) by (simp add: gameLoop_physics)
  have no: "\<not> isGameOver g" using assms(1) by (simp add: phase_def split: if_splits)
  have 3: "(phase (checkBounds h (updateRotation (updatePhysics g))) = Ended) = (y > h - 100 \<or> y < 50)"
    using no unfolding assms(3) by (simp add: phase_def beforePipes_over)
  have 4: "(phase (snd (checkPipes h y ps s)) = Ended) =
       (\<exists>p\<in>set ps.
          birdX + birdRadius > pipe_x p \<and> birdX - birdRadius < pipe_x p + PIPE_WIDTH \<and>
          (y - birdRadius < topHeight p \<or> y + birdRadius > h - bottomHeight p))"
    if "phase s \<noteq> Ended" for ps s
    using that by (simp add: phase_def checkPipes_over collides_def split: if_splits)
  from 1 2 3 4 show ?thesis by (simp add: birdX_def birdRadius_def PIPE_WIDTH_def)
qed

theorem termination_conditions_witness:
  "phase collisionExample = Playing \<and> gameLoopRef collisionExample = Running \<and>
   birdY (tick 800 collisionExample) = 480 \<and> phase (tick 800 collisionExample) = Ended \<and>
   phase (checkBounds 800 (updateRotation (updatePhysics collisionExample))) = Playing"
proof -
  have a: "phase collisionExample = Playing" and b: "gameLoopRef collisionExample = Running"
    and c: "480 = birdY collisionExample + (birdVelocity collisionExample + GRAVITY)"
    and d: "pipes collisionExample =
              [\<lparr>pipe_x = 20, topHeight = 480, bottomHeight = 120, passed = False\<rparr>,
               \<lparr>pipe_x = 270, topHeight = 250, bottomHeight = 350, passed = False\<rparr>]"
    by (simp_all add: collisionExample_def phase_def GRAVITY_def)
  have e: "phase (checkBounds 800 (updateRotation (updatePhysics collisionExample))) = Playing"
    by (simp add: collisionExample_def phase_def checkBounds_def updateRotation_def
        updatePhysics_def GRAVITY_def Let_def)
  from termination_conditions [OF a b c, of 800] a b d e show ?thesis
    by (simp add: birdX_def birdRadius_def PIPE_WIDTH_def PIPE_SPEED_def)
qed

subsection \<open>Moving, pruning and spawning pipes\<close>

text \<open>
  C4: a tick lowers the horizontal position of every pipe by exactly \<open>PIPE_SPEED\<close> and
  then keeps, in their order, the pipes whose position is greater than \<open>- PIPE_WIDTH\<close>;
  so no pipe with a position less than \<open>- PIPE_WIDTH\<close> is left. Heights are untouched.
  A spawn appends one pipe behind the pipes there are.
\<close>

theorem advance_moves_and_prunes:
  assumes "gameLoopRef g = Running"
  shows "map (\<lambda>p. (pipe_x p, topHeight p, bottomHeight p)) (pipes (tick h g)) =
           filter (\<lambda>(x, t, b). x > - PIPE_WIDTH)
             (map (\<lambda>p. (pipe_x p - PIPE_SPEED, topHeight p, bottomHeight p)) (pipes g)) \<and>
         (\<forall>p\<in>set (pipes (tick h g)). \<not> pipe_x p < - PIPE_WIDTH) \<and>
         (pipeGenerationRef g = Running \<longrightarrow>
            (\<exists>new. pipes (spawnTick w h r g) = pipes g @ [new])) \<and>
         PIPE_SPEED = 2 \<and> PIPE_WIDTH = 80"
proof -
  let ?geo = "\<lambda>p. (pipe_x p, topHeight p, bottomHeight p)"
  let ?g2 = "checkBounds h (updateRotation (updatePhysics g))"
  let ?ps' = "fst (checkPipes h (birdY ?g2) (map movePipe (pipes g)) ?g2)"
  have t: "pipes (tick h g) = filter (\<lambda>p. pipe_x p > - PIPE_WIDTH) ?ps'"
    using assms by (simp add: tick_def gameLoop_def updatePipes_pipes beforePipes_fields)
  have m: "map ?geo ?ps' = map (\<lambda>p. (pipe_x p - PIPE_SPEED, topHeight p, bottomHeight p)) (pipes g)"
    unfolding checkPipes_triples by (simp add: movePipe_def)
  have f: "map ?geo (filter (\<lambda>p. pipe_x p > - PIPE_WIDTH) ?ps') =
           filter (\<lambda>(x, t, b). x > - PIPE_WIDTH) (map ?geo ?ps')"
    by (simp add: filter_map comp_def)
  have 1: "map ?geo (pipes (tick h g)) =
           filter (\<lambda>(x, t, b). x > - PIPE_WIDTH)
             (map (\<lambda>p. (pipe_x p - PIPE_SPEED, topHeight p, bottomHeight p)) (pipes g))"
    unfolding t f m ..
  have 2: "\<forall>p\<in>set (pipes (tick h g)). \<not> pipe_x p < - PIPE_WIDTH"
    unfolding t by auto
  have 3: "pipeGenerationRef g = Running \<longrightarrow> (\<exists>new. pipes (spawnTick w h r g) = pipes g @ [new])"
    by (simp add: spawnTick_def generatePipe_def Let_def)
  from 1 2 3 show ?thesis by (simp add: PIPE_SPEED_def PIPE_WIDTH_def)
qed

theorem advance_moves_and_prunes_witness:
  "gameLoopRef pruneExample = Running \<and> pipeGenerationRef pruneExample = Running \<and>
   map (\<lambda>p. (pipe_x p, topHeight p, bottomHeight p)) (pipes pruneExample) =
     [(- 78, 300, 300), (172, 250, 350)] \<and>
   map (\<lambda>p. (pipe_x p, topHeight p, bottomHeight p)) (pipes (tick 800 pruneExample)) =
     [(170, 250, 350)] \<and>
   (\<exists>new. pipes (spawnTick 400 800 (1 / 2) pruneExample) = pipes pruneExample @ [new])"
proof -
  have a: "gameLoopRef pruneExample = Running" and b: "pipeGenerationRef pruneExample = Running"
    and c: "pipes pruneExample =
              [\<lparr>pipe_x = - 78, topHeight = 300, bottomHeight = 300, passed = True\<rparr>,
               \<lparr>pipe_x = 172, topHeight = 250, bottomHeight = 350, passed = False\<rparr>]"
    by (simp_all add: pruneExample_def)
  from advance_moves_and_prunes [OF a, of 800 400 "1 / 2"] a b c show ?thesis
    by (simp add: PIPE_SPEED_def PIPE_WIDTH_def)
qed

text \<open>
  C5: for a height \<open>H \<ge> PIPE_GAP + 200\<close> and a random number \<open>0 \<le> r < 1\<close>, a spawn
  appends, at the end of the pipes, one pipe at the right edge \<open>W\<close>, not yet passed,
  with \<open>topHeight\<close> between 100 and \<open>H - PIPE_GAP - 100\<close> and
  \<open>bottomHeight = H - topHeight - PIPE_GAP\<close>, which is not negative.
\<close>

theorem spawn_bounds:
  assumes "H \<ge> PIPE_GAP + 200" and "0 \<le> r" and "r < 1" and "pipeGenerationRef g = Running"
  shows "\<exists>top. 100 \<le> top \<and> top \<le> H - PIPE_GAP - 100 \<and> H - top - PIPE_GAP \<ge> 0 \<and>
           pipes (spawnTick W H r g) =
             pipes g @ [\<lparr>pipe_x = W, topHeight = top, bottomHeight = H - top - PIPE_GAP,
                         passed = False\<rparr>]"
proof -
  let ?top = "r * (H - PIPE_GAP - 200) + 100"
  have d: "0 \<le> H - PIPE_GAP - 200" using assms(1) by simp
  have lo: "100 \<le> ?top" using d assms(2) by simp
  have "r * (H - PIPE_GAP - 200) \<le> 1 * (H - PIPE_GAP - 200)"
    using d assms(3) by (intro mult_right_mono) simp_all
  then have hi: "?top \<le> H - PIPE_GAP - 100" by simp
  then have b: "H - ?top - PIPE_GAP \<ge> 0" by simp
  have p: "pipes (spawnTick W H r g) =
             pipes g @ [\<lparr>pipe_x = W, topHeight = ?top, bottomHeight = H - ?top - PIPE_GAP,
                         passed = False\<rparr>]"
    using assms(4) by (simp add: spawnTick_def generatePipe_def Let_def)
  from lo hi b p show ?thesis by blast
qed

theorem spawn_bounds_witness:
  "(800::real) \<ge> PIPE_GAP + 200 \<and> pipeGenerationRef started800 = Running \<and>
   (\<exists>top. 100 \<le> top \<and> top \<le> 800 - PIPE_GAP - 100 \<and> 800 - top - PIPE_GAP \<ge> 0 \<and>
      pipes (spawnTick 400 800 (1 / 2) started800) =
        [\<lparr>pipe_x = 400, topHeight = top, bottomHeight = 800 - top - PIPE_GAP, passed = False\<rparr>])"
proof -
  have a: "(800::real) \<ge> PIPE_GAP + 200" by (simp add: PIPE_GAP_def)
  have b: "(0::real) \<le> 1 / 2" and c: "(1::real) / 2 < 1" by simp_all
  have d: "pipeGenerationRef started800 = Running" and e: "pipes started800 = []"
    by (simp_all add: started800_def handleTap_def startGame_def initial_def)
  from spawn_bounds [OF a b c d, of 400] a d e show ?thesis by simp
qed

subsection \<open>Passage and score\<close>

lemma zip_same_no_transition:
  "filter (\<lambda>(p, p'). \<not> passed p \<and> passed p') (zip ps ps) = []"
  by (induction ps) simp_all

lemma checkPipes_score_transitions:
  "score (snd (checkPipes h y ps g)) =
     score g + int (length (filter (\<lambda>(p, p'). \<not> passed p \<and> passed p')
                              (zip ps (fst (checkPipes h y ps g)))))"
proof (induction ps arbitrary: g)
  case Nil
  show ?case by simp
next
  case (Cons p ps)
  show ?case
  proof (cases "collides h y p")
    case True
    then show ?thesis
      using zip_same_no_transition [of "p # ps"] by (simp add: endGame_def)
  next
    case False
    then show ?thesis
      using Cons.IH [of g] Cons.IH [of "incrementScore g"]
      by (simp add: case_prod_beta incrementScore_def)
  qed
qed

lemma checkPipes_passed:
  "i < length ps \<Longrightarrow>
   passed (fst (checkPipes h y ps g) ! i) =
     (passed (ps ! i) \<or>
      (pipe_x (ps ! i) + PIPE_WIDTH < birdX \<and> (\<forall>q\<in>set (take (Suc i) ps). \<not> collides h y q)))"
proof (induction ps arbitrary: i g)
  case Nil
  then show ?case by simp
next
  case (Cons p ps)
  show ?case
  proof (cases "collides h y p")
    case True
    then show ?thesis by simp
  next
    case False
    show ?thesis
    proof (cases i)
      case 0
      with False show ?thesis by (simp add: case_prod_beta)
    next
      case (Suc j)
      with Cons.prems have "j < length ps" by simp
      from Cons.IH [OF this] False Suc show ?thesis by (simp add: case_prod_beta)
    qed
  qed
qed

lemma checkPipes_length: "length (fst (checkPipes h y ps g)) = length ps"
  by (induction ps arbitrary: g) (simp_all add: case_prod_beta)

lemma checkPipes_collision_stops:
  assumes "\<forall>q\<in>set ps. \<not> collides h y q" and "collides h y p"
  shows "checkPipes h y (ps @ p # qs) g =
           (fst (checkPipes h y ps g) @ p # qs, endGame (snd (checkPipes h y ps g)))"
  using assms by (induction ps arbitrary: g) (simp_all add: case_prod_beta)


text \<open>
  C6 as stated fails: in the collision example the first pipe is not passed and, at the
  position the tick gives it, its trailing edge is left of the bird; the tick neither
  sets its flag nor adds to the score, because the collision with that very pipe ends
  the loop before the passage test.
\<close>

theorem passage_skipped_on_collision:
  "phase collisionExample = Playing \<and> gameLoopRef collisionExample = Running \<and>
   pipes collisionExample =
     [\<lparr>pipe_x = 20, topHeight = 480, bottomHeight = 120, passed = False\<rparr>,
      \<lparr>pipe_x = 270, topHeight = 250, bottomHeight = 350, passed = False\<rparr>] \<and>
   pipes (tick 800 collisionExample) =
     [\<lparr>pipe_x = 18, topHeight = 480, bottomHeight = 120, passed = False\<rparr>,
      \<lparr>pipe_x = 268, topHeight = 250, bottomHeight = 350, passed = False\<rparr>] \<and>
   (18::real) + PIPE_WIDTH < birdX \<and>
   score (tick 800 collisionExample) = score collisionExample \<and>
   phase (tick 800 collisionExample) = Ended"
  by (simp add: collisionExample_def tick_def gameLoop_def updatePipes_def checkBounds_def
      updateRotation_def updatePhysics_def movePipe_def collides_def endGame_def phase_def
      Let_def GRAVITY_def PIPE_WIDTH_def PIPE_SPEED_def birdX_def birdRadius_def)

text \<open>
  C6, amended: in a tick during Playing, with the pipes at their advanced positions, a
  pipe's flag is set after the loop exactly when it was set before, or the pipe's
  trailing edge is left of the bird and neither this pipe nor an earlier one collides
  with the bird (a collision ends the loop before the passage test). A flag that is set
  stays set, so it goes from false to true at most once. The score grows by exactly one
  for each pipe whose flag goes from false to true; a spawn and an activate input during
  Playing leave it alone, so the score never decreases during Playing.
\<close>

theorem passage_marks_and_scores:
  assumes "phase g = Playing" and "gameLoopRef g = Running"
    and "y = birdY g + (birdVelocity g + GRAVITY)"
    and "ps = map movePipe (pipes g)"
    and "ps' = fst (checkPipes h y ps (checkBounds h (updateRotation (updatePhysics g))))"
  shows
    "length ps' = length ps \<and>
     (\<forall>i<length ps.
        passed (ps' ! i) =
          (passed (ps ! i) \<or>
           (pipe_x (ps ! i) + PIPE_WIDTH < birdX \<and>
            (\<forall>q\<in>set (take (Suc i) ps). \<not> collides h y q)))) \<and>
     pipes (tick h g) = filter (\<lambda>p. pipe_x p > - PIPE_WIDTH) ps' \<and>
     score (tick h g) =
       score g + int (length (filter (\<lambda>(p, p'). \<not> passed p \<and> passed p') (zip ps ps'))) \<and>
     score g \<le> score (tick h g) \<and>
     score (spawnTick w h r g) = score g \<and>
     score (handleTap h g) = score g"
proof -
  let ?g2 = "checkBounds h (updateRotation (updatePhysics g))"
  have t: "tick h g = updatePipes h ?g2"
    using assms(2) by (simp add: tick_def gameLoop_def)
  have y: "birdY ?g2 = y" and p: "pipes ?g2 = pipes g" and s: "score ?g2 = score g"
    unfolding assms(3) by (simp_all add: beforePipes_fields)
  have 1: "length ps' = length ps"
    unfolding assms(5) by (rule checkPipes_length)
  have 2: "passed (ps' ! i) =
          (passed (ps ! i) \<or>
           (pipe_x (ps ! i) + PIPE_WIDTH < birdX \<and>
            (\<forall>q\<in>set (take (Suc i) ps). \<not> collides h y q)))" if "i < length ps" for i
    unfolding assms(5) using that by (rule checkPipes_passed)
  have 3: "pipes (tick h g) = filter (\<lambda>p. pipe_x p > - PIPE_WIDTH) ps'"
    unfolding t updatePipes_pipes y p assms(5) assms(4) ..
  have 4: "score (tick h g) =
       score g + int (length (filter (\<lambda>(p, p'). \<not> passed p \<and> passed p') (zip ps ps')))"
    unfolding t updatePipes_score y p assms(5) assms(4) [symmetric]
    using checkPipes_score_transitions [of h y ps ?g2] s by simp
  have 5: "score g \<le> score (tick h g)"
    unfolding 4 by simp
  have 6: "score (spawnTick w h r g) = score g"
    by (simp add: spawnTick_def generatePipe_def Let_def)
  have 7: "score (handleTap h g) = score g"
    using assms(1) by (simp add: handleTap_def phase_def split: if_splits)
  from 1 2 3 4 5 6 7 show ?thesis by blast
qed

theorem passage_marks_and_scores_witness:
  "phase passExample = Playing \<and> gameLoopRef passExample = Running \<and>
   pipes passExample =
     [\<lparr>pipe_x = 20, topHeight = 300, bottomHeight = 300, passed = False\<rparr>,
      \<lparr>pipe_x = 270, topHeight = 250, bottomHeight = 350, passed = False\<rparr>] \<and>
   pipes (tick 800 passExample) =
     [\<lparr>pipe_x = 18, topHeight = 300, bottomHeight = 300, passed = True\<rparr>,
      \<lparr>pipe_x = 268, topHeight = 250, bottomHeight = 350, passed = False\<rparr>] \<and>
   score passExample = 0 \<and> score (tick 800 passExample) = 1"
proof -
  let ?ps = "[\<lparr>pipe_x = 18, topHeight = 300, bottomHeight = 300, passed = False\<rparr>,
              \<lparr>pipe_x = 268, topHeight = 250, bottomHeight = 350, passed = False\<rparr>]"
  let ?ps' = "[\<lparr>pipe_x = 18, topHeight = 300, bottomHeight = 300, passed = True\<rparr>,
               \<lparr>pipe_x = 268, topHeight = 250, bottomHeight = 350, passed = False\<rparr>]"
  have a: "phase passExample = Playing" and b: "gameLoopRef passExample = Running"
    and c: "4006 / 10 = birdY passExample + (birdVelocity passExample + GRAVITY)"
    and d: "?ps = map movePipe (pipes passExample)"
    and e: "pipes passExample =
     [\<lparr>pipe_x = 20, topHeight = 300, bottomHeight = 300, passed = False\<rparr>,
      \<lparr>pipe_x = 270, topHeight = 250, bottomHeight = 350, passed = False\<rparr>]"
    and f: "score passExample = 0"
    by (simp_all add: passExample_def phase_def GRAVITY_def movePipe_def PIPE_SPEED_def)
  have g: "?ps' = fst (checkPipes 800 (4006 / 10) ?ps
                    (checkBounds 800 (updateRotation (updatePhysics passExample))))"
    by (simp add: collides_def PIPE_WIDTH_def birdX_def birdRadius_def case_prod_beta)
  from passage_marks_and_scores [OF a b c d g] a b e f show ?thesis
    by (simp add: PIPE_WIDTH_def)
qed

subsection \<open>Termination within a tick\<close>

lemma tick_after_end: "gameLoopRef g \<noteq> Running \<Longrightarrow> (tick h ^^ n) g = g"
  by (induction n) (simp_all add: tick_def)

text \<open>
  What every tick during Playing does when a termination condition holds in it, be it
  the bounds or a collision: the bird's position is the one the physics update gave
  it, the phase after the tick is Ended, both intervals are cancelled, and later tick
  and spawn signals leave the state as it is.
\<close>

lemma termination_is_final:
  assumes "wellFormed g" and "phase g = Playing"
    and "y = birdY g + (birdVelocity g + GRAVITY)"
    and "y > h - 100 \<or> y < 50 \<or> (\<exists>p\<in>set (pipes g). collides h y (movePipe p))"
  shows "birdY (tick h g) = y" and "phase (tick h g) = Ended"
    and "gameLoopRef (tick h g) = Cleared" and "pipeGenerationRef (tick h g) = Cleared"
    and "(tick h ^^ n) (tick h g) = tick h g" and "spawnTick w h r (tick h g) = tick h g"
proof -
  from assms(1,2) have run: "gameLoopRef g = Running" "pipeGenerationRef g = Running"
    by (simp_all add: wellFormed_def)
  have t: "tick h g = gameLoop h g" using run by (simp add: tick_def)
  show "birdY (tick h g) = y"
    by (simp add: t assms(3) gameLoop_physics)
  from assms(4) have o: "isGameOver (gameLoop h g)"
    unfolding assms(3) gameLoop_over by simp
  then show "phase (tick h g) = Ended"
    by (simp add: t phase_def)
  from assms(4) run show r: "gameLoopRef (tick h g) = Cleared"
    and "pipeGenerationRef (tick h g) = Cleared"
    using gameLoop_refs [of h g] unfolding t assms(3) by (simp_all add: clearInterval_def)
  from r show "(tick h ^^ n) (tick h g) = tick h g"
    by (intro tick_after_end) simp
  from assms(4) run show "spawnTick w h r (tick h g) = tick h g"
    using gameLoop_refs [of h g] unfolding t assms(3)
    by (simp add: spawnTick_def clearInterval_def)
qed








end
